theory Spec2Isabelle
  imports Complex_Main "HOL-Library.Multiset"
begin

section \<open>Values and failures\<close>

text \<open>
  The loss functions of \<^verbatim>\<open>deepcell_spots/dotnet_losses.py\<close> compute on floating-point
  tensors. The elements of the input tensors are embedded as real numbers, so rounding is not
  part of the model. A call that raises returns an \<open>error\<close>:
  \<^item> \<open>ZeroDivisionError\<close>: Python's \<^verbatim>\<open>1.0 / sigma_squared\<close> with a zero divisor;
  \<^item> \<open>InvalidArgument\<close>: an index or a pair of shapes that the tensor engine rejects.

  A tensor division by zero and a mean over no elements raise nothing: they give
  \<^verbatim>\<open>inf\<close> or \<^verbatim>\<open>nan\<close>. Values computed that way are of type \<open>tf_float\<close>,
  where \<open>NonFinite\<close> stands for both; sums, differences and products with a non-finite
  operand stay non-finite (also \<^verbatim>\<open>0 * nan\<close> and \<^verbatim>\<open>0 * inf\<close>).
\<close>

datatype error = ZeroDivisionError | InvalidArgument

datatype tf_float = Finite real | NonFinite

fun fadd :: "tf_float \<Rightarrow> tf_float \<Rightarrow> tf_float" where
  "fadd (Finite a) (Finite b) = Finite (a + b)"
| "fadd _ _ = NonFinite"

fun fsub :: "tf_float \<Rightarrow> tf_float \<Rightarrow> tf_float" where
  "fsub (Finite a) (Finite b) = Finite (a - b)"
| "fsub _ _ = NonFinite"

fun fmul :: "tf_float \<Rightarrow> tf_float \<Rightarrow> tf_float" where
  "fmul (Finite a) (Finite b) = Finite (a * b)"
| "fmul _ _ = NonFinite"

fun div_count :: "tf_float \<Rightarrow> nat \<Rightarrow> tf_float" where
  \<comment> \<open>division by an element count cast to float\<close>
  "div_count (Finite a) n = (if n = 0 then NonFinite else Finite (a / real n))"
| "div_count NonFinite n = NonFinite"

definition bind :: "error + 'a \<Rightarrow> ('a \<Rightarrow> error + 'b) \<Rightarrow> error + 'b" where
  "bind r f = (case r of Inl e \<Rightarrow> Inl e | Inr v \<Rightarrow> f v)"

section \<open>Rank-1 tensors and \<^verbatim>\<open>smooth_l1\<close>\<close>

text \<open>
  \<^verbatim>\<open>smooth_l1\<close> is elementwise; \<^verbatim>\<open>regression_loss\<close> calls it on the rank-1 results
  of \<^verbatim>\<open>tf.gather_nd\<close>, so it is embedded on rank-1 tensors (\<open>real list\<close>).
  Each backend operation of the source is one definition.
\<close>

definition broadcast2 :: "('a \<Rightarrow> 'a \<Rightarrow> 'b) \<Rightarrow> 'a list \<Rightarrow> 'a list \<Rightarrow> error + 'b list" where
  \<comment> \<open>a binary elementwise operation on rank-1 tensors: equal lengths, or one operand of
     length 1 is broadcast; any other pair of lengths is rejected\<close>
  "broadcast2 f xs ys =
     (if length xs = length ys then Inr (map2 f xs ys)
      else if length xs = 1 then Inr (map (\<lambda>y. f (hd xs) y) ys)
      else if length ys = 1 then Inr (map (\<lambda>x. f x (hd ys)) xs)
      else Inl InvalidArgument)"

definition tf_sub :: "real list \<Rightarrow> real list \<Rightarrow> error + real list" where
  \<comment> \<open>\<^verbatim>\<open>y_true - y_pred\<close>\<close>
  "tf_sub xs ys = broadcast2 (-) xs ys"

definition K_abs :: "real list \<Rightarrow> real list" where
  "K_abs xs = map abs xs"

definition K_less :: "real list \<Rightarrow> real \<Rightarrow> bool list" where
  "K_less xs c = map (\<lambda>x. x < c) xs"

definition K_pow :: "real list \<Rightarrow> nat \<Rightarrow> real list" where
  "K_pow xs n = map (\<lambda>x. x ^ n) xs"

definition tf_select :: "bool list \<Rightarrow> real list \<Rightarrow> real list \<Rightarrow> real list" where
  \<comment> \<open>the three-argument \<^verbatim>\<open>tf.where(cond, a, b)\<close>\<close>
  "tf_select cond a b = map (\<lambda>(c, u, v). if c then u else v) (zip cond (zip a b))"

definition quadratic_branch :: "real \<Rightarrow> real list \<Rightarrow> real list" where
  \<comment> \<open>\<^verbatim>\<open>0.5 * sigma_squared * K.pow(regression_diff, 2)\<close>\<close>
  "quadratic_branch sigma_squared regression_diff =
     map (\<lambda>v. 0.5 * sigma_squared * v) (K_pow regression_diff 2)"

definition linear_branch :: "real \<Rightarrow> real list \<Rightarrow> real list" where
  \<comment> \<open>\<^verbatim>\<open>regression_diff - 0.5 / sigma_squared\<close>\<close>
  "linear_branch sigma_squared regression_diff =
     map (\<lambda>v. v - 0.5 / sigma_squared) regression_diff"

definition smooth_l1 :: "real list \<Rightarrow> real list \<Rightarrow> real \<Rightarrow> error + real list" where
  "smooth_l1 y_true y_pred sigma =
     (let sigma_squared = sigma ^ 2 in
      bind (tf_sub y_true y_pred) (\<lambda>diff.
        let regression_diff = K_abs diff in
        if sigma_squared = 0 then Inl ZeroDivisionError
        else Inr (tf_select (K_less regression_diff (1 / sigma_squared))
                    (quadratic_branch sigma_squared regression_diff)
                    (linear_branch sigma_squared regression_diff))))"

definition smooth_l1_pair :: "real \<Rightarrow> real \<Rightarrow> real \<Rightarrow> real" where
  \<comment> \<open>the loss that \<^verbatim>\<open>smooth_l1\<close> returns for one pair of elements (one-element tensors)\<close>
  "smooth_l1_pair sigma t p =
     (case smooth_l1 [t] [p] sigma of Inr out \<Rightarrow> sum_list out | Inl e \<Rightarrow> 0)"

definition smooth_l1_formula :: "real \<Rightarrow> real \<Rightarrow> real \<Rightarrow> real" where
  \<comment> \<open>the formula of the specification for one pair of elements\<close>
  "smooth_l1_formula sigma t p =
     (let s = sigma ^ 2; r = \<bar>t - p\<bar> in if r < 1 / s then 0.5 * s * r ^ 2 else r - 0.5 / s)"

section \<open>Rank-3 and rank-4 tensors\<close>

text \<open>
  A tensor of known rank is its shape and its indexing function; only the entries inside
  the shape are part of the tensor.
\<close>

record 'a tensor3 =
  dim0 :: nat
  dim1 :: nat
  dim2 :: nat
  at3 :: "nat \<Rightarrow> nat \<Rightarrow> nat \<Rightarrow> 'a"

record tensor4 =
  batch :: nat
  Ly :: nat
  Lx :: nat
  channels :: nat
  at4 :: "nat \<Rightarrow> nat \<Rightarrow> nat \<Rightarrow> nat \<Rightarrow> real"

definition same_shape :: "tensor4 \<Rightarrow> tensor4 \<Rightarrow> bool" where
  "same_shape s t \<longleftrightarrow>
     batch s = batch t \<and> Ly s = Ly t \<and> Lx s = Lx t \<and> channels s = channels t"

definition channel :: "tensor4 \<Rightarrow> nat \<Rightarrow> real tensor3" where
  "channel t c = \<lparr>dim0 = batch t, dim1 = Ly t, dim2 = Lx t, at3 = (\<lambda>b y x. at4 t b y x c)\<rparr>"

definition last_axis :: "tensor4 \<Rightarrow> nat \<Rightarrow> error + real tensor3" where
  \<comment> \<open>\<^verbatim>\<open>t[..., c]\<close>: the index has to be inside the last axis\<close>
  "last_axis t c = (if c < channels t then Inr (channel t c) else Inl InvalidArgument)"

definition K_less_equal3 :: "real \<Rightarrow> real tensor3 \<Rightarrow> bool tensor3" where
  \<comment> \<open>\<^verbatim>\<open>K.less_equal(c, t)\<close> with a scalar first operand\<close>
  "K_less_equal3 c t =
     \<lparr>dim0 = dim0 t, dim1 = dim1 t, dim2 = dim2 t, at3 = (\<lambda>b y x. c \<le> at3 t b y x)\<rparr>"

definition K_less3 :: "real tensor3 \<Rightarrow> real \<Rightarrow> bool tensor3" where
  \<comment> \<open>\<^verbatim>\<open>K.less(t, c)\<close> with a scalar second operand\<close>
  "K_less3 t c =
     \<lparr>dim0 = dim0 t, dim1 = dim1 t, dim2 = dim2 t, at3 = (\<lambda>b y x. at3 t b y x < c)\<rparr>"

definition logical_and :: "bool tensor3 \<Rightarrow> bool tensor3 \<Rightarrow> bool tensor3" where
  \<comment> \<open>both operands are masks of the same tensor, hence of one shape\<close>
  "logical_and p q =
     \<lparr>dim0 = dim0 p, dim1 = dim1 p, dim2 = dim2 p, at3 = (\<lambda>b y x. at3 p b y x \<and> at3 q b y x)\<rparr>"

definition tf_where :: "bool tensor3 \<Rightarrow> (nat \<times> nat \<times> nat) list" where
  \<comment> \<open>the one-argument \<^verbatim>\<open>tf.where(mask)\<close>: coordinates of the true entries, row-major\<close>
  "tf_where m =
     concat (map (\<lambda>b. concat (map (\<lambda>y. map (\<lambda>x. (b, y, x))
        (filter (\<lambda>x. at3 m b y x) [0..<dim2 m])) [0..<dim1 m])) [0..<dim0 m])"

definition in_shape :: "'a tensor3 \<Rightarrow> (nat \<times> nat \<times> nat) list \<Rightarrow> bool" where
  "in_shape t indices = list_all (\<lambda>(b, y, x). b < dim0 t \<and> y < dim1 t \<and> x < dim2 t) indices"

definition gather_nd :: "'a tensor3 \<Rightarrow> (nat \<times> nat \<times> nat) list \<Rightarrow> error + 'a list" where
  \<comment> \<open>an index outside the tensor is rejected\<close>
  "gather_nd t indices =
     (if in_shape t indices then Inr (map (\<lambda>(b, y, x). at3 t b y x) indices)
      else Inl InvalidArgument)"

section \<open>The configuration object and the regression loss\<close>

record DotNetLosses =
  gamma :: real
  sigma :: real
  n_classes :: nat
  focal :: bool
  d_pixels :: real
  mu :: real
  beta :: real

definition regression_loss_on ::
  "real \<Rightarrow> real tensor3 \<Rightarrow> real tensor3 \<Rightarrow> real tensor3 \<Rightarrow> real tensor3 \<Rightarrow>
   (nat \<times> nat \<times> nat) list \<Rightarrow> error + real" where
  \<comment> \<open>\<^verbatim>\<open>regression_loss\<close> from the first \<^verbatim>\<open>tf.gather_nd\<close> on, for a given index list\<close>
  "regression_loss_on sg y_offset_true x_offset_true y_offset_pred x_offset_pred near_pt_indices =
     bind (gather_nd y_offset_true near_pt_indices) (\<lambda>y_offset_true_cp.
     bind (gather_nd x_offset_true near_pt_indices) (\<lambda>x_offset_true_cp.
     bind (gather_nd y_offset_pred near_pt_indices) (\<lambda>y_offset_pred_cp.
     bind (gather_nd x_offset_pred near_pt_indices) (\<lambda>x_offset_pred_cp.
     bind (smooth_l1 y_offset_true_cp y_offset_pred_cp sg) (\<lambda>pixelwise_loss_y.
     bind (smooth_l1 x_offset_true_cp x_offset_pred_cp sg) (\<lambda>pixelwise_loss_x.
       let normalizer = real (max 1 (length near_pt_indices));
           loss = pixelwise_loss_y @ pixelwise_loss_x
       in Inr (sum_list loss / normalizer)))))))"

definition near_pt_mask :: "real \<Rightarrow> real tensor3 \<Rightarrow> real tensor3 \<Rightarrow> bool tensor3" where
  "near_pt_mask d y_offset_true x_offset_true =
     (let near_pt_y = logical_and (K_less_equal3 (- d) y_offset_true) (K_less3 y_offset_true d);
          near_pt_x = logical_and (K_less_equal3 (- d) x_offset_true) (K_less3 x_offset_true d)
      in logical_and near_pt_y near_pt_x)"

definition regression_loss :: "DotNetLosses \<Rightarrow> tensor4 \<Rightarrow> tensor4 \<Rightarrow> error + real" where
  "regression_loss self y_true y_pred =
     bind (last_axis y_true 0) (\<lambda>y_offset_true.
     bind (last_axis y_true 1) (\<lambda>x_offset_true.
     bind (last_axis y_pred 0) (\<lambda>y_offset_pred.
     bind (last_axis y_pred 1) (\<lambda>x_offset_pred.
       let d = 0.5 + d_pixels self;
           near_pt_indices = tf_where (near_pt_mask d y_offset_true x_offset_true)
       in regression_loss_on (sigma self)
            y_offset_true x_offset_true y_offset_pred x_offset_pred near_pt_indices))))"

definition near_pt_indices :: "DotNetLosses \<Rightarrow> tensor4 \<Rightarrow> (nat \<times> nat \<times> nat) list" where
  \<comment> \<open>the index list that \<open>regression_loss\<close> computes, when both offset channels exist\<close>
  "near_pt_indices self y_true =
     tf_where (near_pt_mask (0.5 + d_pixels self) (channel y_true 0) (channel y_true 1))"

text \<open>
  The selection as the specification words it: the pixels whose ground-truth offsets both
  lie in the half-open interval from \<open>- (0.5 + d_pixels)\<close> to \<open>0.5 + d_pixels\<close>.
\<close>

definition selected :: "DotNetLosses \<Rightarrow> tensor4 \<Rightarrow> (nat \<times> nat \<times> nat) set" where
  "selected self y_true =
     {(b, y, x). b < batch y_true \<and> y < Ly y_true \<and> x < Lx y_true \<and>
        - (0.5 + d_pixels self) \<le> at4 y_true b y x 0 \<and> at4 y_true b y x 0 < 0.5 + d_pixels self \<and>
        - (0.5 + d_pixels self) \<le> at4 y_true b y x 1 \<and> at4 y_true b y x 1 < 0.5 + d_pixels self}"

text \<open>
  The end-to-end example of the specification: one image of 3 by 3 pixels, a spot at the
  centre of pixel (1, 1), every other ground-truth offset far out of range, and the predicted
  offsets (0.1, -0.1) everywhere.
\<close>

definition example_losses :: DotNetLosses where
  "example_losses =
     \<lparr>gamma = 2, sigma = 3, n_classes = 2, focal = False, d_pixels = 1, mu = 0, beta = 0\<rparr>"

definition example_true :: tensor4 where
  "example_true =
     \<lparr>batch = 1, Ly = 3, Lx = 3, channels = 2,
      at4 = (\<lambda>b y x c. if y = 1 \<and> x = 1 then 0 else 10)\<rparr>"

definition example_pred :: tensor4 where
  "example_pred =
     \<lparr>batch = 1, Ly = 3, Lx = 3, channels = 2,
      at4 = (\<lambda>b y x c. if c = 0 then 0.1 else - 0.1)\<rparr>"

definition example_pred_other :: tensor4 where
  \<comment> \<open>as \<open>example_pred\<close> at pixel (1, 1), different everywhere else\<close>
  "example_pred_other =
     \<lparr>batch = 1, Ly = 3, Lx = 3, channels = 2,
      at4 = (\<lambda>b y x c. if y = 1 \<and> x = 1 then (if c = 0 then 0.1 else - 0.1) else 7)\<rparr>"

definition example_offsets :: tensor4 where
  \<comment> \<open>ground truth with two pixels near a spot: (0, 0) with the offsets (0.15, -0.5) and
     (1, 1) with the offsets (0, 0)\<close>
  "example_offsets =
     \<lparr>batch = 1, Ly = 3, Lx = 3, channels = 2,
      at4 = (\<lambda>b y x c. if y = 0 \<and> x = 0 then (if c = 0 then 3 / 20 else - (1 / 2))
                        else if y = 1 \<and> x = 1 then 0 else 10)\<rparr>"

definition example_far :: tensor4 where
  \<comment> \<open>ground truth with no pixel near a spot\<close>
  "example_far = \<lparr>batch = 1, Ly = 3, Lx = 3, channels = 2, at4 = (\<lambda>b y x c. 10)\<rparr>"

definition example_two_spots :: tensor4 where
  \<comment> \<open>ground truth with the two pixels (0, 0) and (1, 1) near a spot\<close>
  "example_two_spots =
     \<lparr>batch = 1, Ly = 3, Lx = 3, channels = 2,
      at4 = (\<lambda>b y x c. if x = y \<and> y < 2 then 0 else 10)\<rparr>"

section \<open>The classification losses\<close>

text \<open>
  \<^verbatim>\<open>weighted_focal_loss\<close> and \<^verbatim>\<open>weighted_categorical_crossentropy\<close> come from
  the package \<^verbatim>\<open>deepcell\<close>; they are parameters of the model. What they return is a
  tensor of a rank this module does not fix: its shape and its elements in row-major order.
\<close>

record tensor =
  shape :: "nat list"
  elems :: "tf_float list"

record deepcell_losses =
  weighted_focal_loss :: "tensor4 \<Rightarrow> tensor4 \<Rightarrow> real \<Rightarrow> nat \<Rightarrow> error + tensor"
  weighted_categorical_crossentropy :: "tensor4 \<Rightarrow> tensor4 \<Rightarrow> nat \<Rightarrow> error + tensor"

definition K_mean :: "tf_float list \<Rightarrow> tf_float" where
  \<comment> \<open>\<^verbatim>\<open>K.mean\<close> over all elements\<close>
  "K_mean xs = div_count (foldr fadd xs (Finite 0)) (length xs)"

definition scalar :: "tf_float \<Rightarrow> tensor" where
  "scalar v = \<lparr>shape = [], elems = [v]\<rparr>"

definition add_scalar :: "tensor \<Rightarrow> tf_float \<Rightarrow> tensor" where
  \<comment> \<open>\<^verbatim>\<open>t + c\<close> with the scalar \<open>c\<close> broadcast\<close>
  "add_scalar t c = t\<lparr>elems := map (\<lambda>v. fadd v c) (elems t)\<rparr>"

definition classification_loss ::
  "deepcell_losses \<Rightarrow> DotNetLosses \<Rightarrow> tensor4 \<Rightarrow> tensor4 \<Rightarrow> error + tensor" where
  "classification_loss losses self y_true y_pred =
     (if focal self
      then weighted_focal_loss losses y_true y_pred (gamma self) (n_classes self)
      else bind (weighted_categorical_crossentropy losses y_true y_pred (n_classes self))
             (\<lambda>loss. Inr (scalar (K_mean (elems loss)))))"

definition K_sum3 :: "real tensor3 \<Rightarrow> real" where
  "K_sum3 t = (\<Sum>b\<leftarrow>[0..<dim0 t]. \<Sum>y\<leftarrow>[0..<dim1 t]. \<Sum>x\<leftarrow>[0..<dim2 t]. at3 t b y x)"

definition K_mean_axis12 :: "real tensor3 \<Rightarrow> tf_float list" where
  \<comment> \<open>\<^verbatim>\<open>K.mean(t, axis=[1, 2])\<close>: one mean per image\<close>
  "K_mean_axis12 t =
     map (\<lambda>b. div_count (Finite (\<Sum>y\<leftarrow>[0..<dim1 t]. \<Sum>x\<leftarrow>[0..<dim2 t]. at3 t b y x))
                (dim1 t * dim2 t))
       [0..<dim0 t]"

definition K_square :: "tf_float list \<Rightarrow> tf_float list" where
  "K_square xs = map (\<lambda>v. fmul v v) xs"

definition N_loss :: "tensor4 \<Rightarrow> tensor4 \<Rightarrow> error + tf_float" where
  \<comment> \<open>the count-mismatch term\<close>
  "N_loss y_true y_pred =
     bind (last_axis y_pred 1) (\<lambda>pred_spots.
     bind (last_axis y_true 1) (\<lambda>true_spots.
     bind (broadcast2 fsub (K_mean_axis12 pred_spots) (K_mean_axis12 true_spots)) (\<lambda>N_diff.
       Inr (K_mean (K_square N_diff)))))"

definition spatial_mean :: "tensor4 \<Rightarrow> nat \<Rightarrow> real" where
  \<comment> \<open>in the words of the specification: the mean over height and width of the spot-class
     channel (index 1) of image \<open>b\<close>\<close>
  "spatial_mean t b = (\<Sum>y<Ly t. \<Sum>x<Lx t. at4 t b y x 1) / real (Ly t * Lx t)"

definition spatial_2d_padding :: "tensor4 \<Rightarrow> tensor4" where
  \<comment> \<open>\<^verbatim>\<open>K.spatial_2d_padding(t, padding=((1, 1), (1, 1)))\<close>: a border of zeros\<close>
  "spatial_2d_padding t =
     \<lparr>batch = batch t, Ly = Ly t + 2, Lx = Lx t + 2, channels = channels t,
      at4 = (\<lambda>b y x c. if 1 \<le> y \<and> y \<le> Ly t \<and> 1 \<le> x \<and> x \<le> Lx t
                        then at4 t b (y - 1) (x - 1) c else 0)\<rparr>"

definition rows_from_1 :: "'a tensor3 \<Rightarrow> 'a tensor3" where
  \<comment> \<open>\<^verbatim>\<open>t[:, 1:, :]\<close>\<close>
  "rows_from_1 t =
     \<lparr>dim0 = dim0 t, dim1 = dim1 t - 1, dim2 = dim2 t, at3 = (\<lambda>b y x. at3 t b (y + 1) x)\<rparr>"

definition rows_to_last :: "'a tensor3 \<Rightarrow> 'a tensor3" where
  \<comment> \<open>\<^verbatim>\<open>t[:, :-1, :]\<close>\<close>
  "rows_to_last t = \<lparr>dim0 = dim0 t, dim1 = dim1 t - 1, dim2 = dim2 t, at3 = at3 t\<rparr>"

definition cols_from_1 :: "'a tensor3 \<Rightarrow> 'a tensor3" where
  \<comment> \<open>\<^verbatim>\<open>t[:, :, 1:]\<close>\<close>
  "cols_from_1 t =
     \<lparr>dim0 = dim0 t, dim1 = dim1 t, dim2 = dim2 t - 1, at3 = (\<lambda>b y x. at3 t b y (x + 1))\<rparr>"

definition cols_to_last :: "'a tensor3 \<Rightarrow> 'a tensor3" where
  \<comment> \<open>\<^verbatim>\<open>t[:, :, :-1]\<close>\<close>
  "cols_to_last t = \<lparr>dim0 = dim0 t, dim1 = dim1 t, dim2 = dim2 t - 1, at3 = at3 t\<rparr>"

definition tf_mul3 :: "real tensor3 \<Rightarrow> real tensor3 \<Rightarrow> real tensor3" where
  \<comment> \<open>the elementwise product of two slices of one shape\<close>
  "tf_mul3 p q =
     \<lparr>dim0 = dim0 p, dim1 = dim1 p, dim2 = dim2 p, at3 = (\<lambda>b y x. at3 p b y x * at3 q b y x)\<rparr>"

definition inter_loss :: "tensor4 \<Rightarrow> error + tf_float" where
  \<comment> \<open>the interaction term\<close>
  "inter_loss y_pred =
     (let y_pred_padded = spatial_2d_padding y_pred in
      bind (last_axis y_pred_padded 1) (\<lambda>padded_spots.
        let pair_sum = K_sum3 (tf_mul3 (rows_from_1 padded_spots) (rows_to_last padded_spots)) +
                       K_sum3 (tf_mul3 (cols_from_1 padded_spots) (cols_to_last padded_spots));
            normalizer = batch y_pred * Ly y_pred * Lx y_pred
        in Inr (div_count (Finite pair_sum) normalizer)))"

definition classification_loss_regularized ::
  "deepcell_losses \<Rightarrow> DotNetLosses \<Rightarrow> tensor4 \<Rightarrow> tensor4 \<Rightarrow> error + tensor" where
  "classification_loss_regularized losses self y_true y_pred =
     bind (if focal self
           then weighted_focal_loss losses y_true y_pred (gamma self) (n_classes self)
           else bind (weighted_categorical_crossentropy losses y_true y_pred (n_classes self))
                  (\<lambda>loss. Inr (scalar (K_mean (elems loss))))) (\<lambda>loss.
     bind (N_loss y_true y_pred) (\<lambda>n_loss.
     bind (inter_loss y_pred) (\<lambda>i_loss.
       Inr (add_scalar (add_scalar loss (fmul (Finite (mu self)) n_loss))
              (fmul (Finite (beta self)) i_loss)))))"

definition vertical_pairs :: "tensor4 \<Rightarrow> real" where
  \<comment> \<open>the sum of the products of the vertically adjacent pairs of the padded spot channel\<close>
  "vertical_pairs t =
     (\<Sum>b<batch t. \<Sum>y<Ly t + 1. \<Sum>x<Lx t + 2.
        at4 (spatial_2d_padding t) b (y + 1) x 1 * at4 (spatial_2d_padding t) b y x 1)"

definition horizontal_pairs :: "tensor4 \<Rightarrow> real" where
  \<comment> \<open>the same for the horizontally adjacent pairs\<close>
  "horizontal_pairs t =
     (\<Sum>b<batch t. \<Sum>y<Ly t + 2. \<Sum>x<Lx t + 1.
        at4 (spatial_2d_padding t) b y (x + 1) 1 * at4 (spatial_2d_padding t) b y x 1)"

text \<open>
  Example classification tensors: one image of 1 by 2 pixels with two classes. The ground
  truth has its spot in pixel 0, \<open>example_cls_pred\<close> predicts it in pixel 1,
  \<open>example_cls_both\<close> predicts a spot with probability one half in both pixels and
  \<open>example_cls_none\<close> predicts no spot. The stand-in for the external primitives returns
  fixed tensors.
\<close>

definition example_cls_true :: tensor4 where
  "example_cls_true =
     \<lparr>batch = 1, Ly = 1, Lx = 2, channels = 2,
      at4 = (\<lambda>b y x c. if (x = 0) = (c = 1) then 1 else 0)\<rparr>"

definition example_cls_pred :: tensor4 where
  "example_cls_pred =
     \<lparr>batch = 1, Ly = 1, Lx = 2, channels = 2,
      at4 = (\<lambda>b y x c. if (x = 1) = (c = 1) then 1 else 0)\<rparr>"

definition example_cls_both :: tensor4 where
  "example_cls_both = \<lparr>batch = 1, Ly = 1, Lx = 2, channels = 2, at4 = (\<lambda>b y x c. 1 / 2)\<rparr>"

definition example_cls_none :: tensor4 where
  "example_cls_none =
     \<lparr>batch = 1, Ly = 1, Lx = 2, channels = 2, at4 = (\<lambda>b y x c. if c = 1 then 0 else 1)\<rparr>"

definition example_primitives :: deepcell_losses where
  "example_primitives =
     \<lparr>weighted_focal_loss = (\<lambda>y_true y_pred g n. Inr \<lparr>shape = [1, 1, 2], elems = [Finite 2, Finite 5]\<rparr>),
      weighted_categorical_crossentropy =
        (\<lambda>y_true y_pred n. Inr \<lparr>shape = [1, 1, 2], elems = [Finite 1, Finite 3]\<rparr>)\<rparr>"

section \<open>Properties of \<^verbatim>\<open>smooth_l1\<close>\<close>

lemma smooth_l1_map2:
  assumes "length y_true = length y_pred" and "sg \<noteq> 0"
  shows "smooth_l1 y_true y_pred sg = Inr (map2 (smooth_l1_formula sg) y_true y_pred)"
proof -
  have "tf_select (K_less (K_abs (map2 (-) y_true y_pred)) (1 / sg\<^sup>2))
          (quadratic_branch (sg\<^sup>2) (K_abs (map2 (-) y_true y_pred)))
          (linear_branch (sg\<^sup>2) (K_abs (map2 (-) y_true y_pred)))
        = map2 (smooth_l1_formula sg) y_true y_pred"
    using assms(1)
  proof (induction y_true y_pred rule: list_induct2)
    case Nil
    show ?case
      by (simp add: tf_select_def K_less_def K_abs_def quadratic_branch_def
          linear_branch_def K_pow_def)
  next
    case (Cons t ts p ps)
    then show ?case
      by (simp add: tf_select_def K_less_def K_abs_def quadratic_branch_def
          linear_branch_def K_pow_def smooth_l1_formula_def Let_def)
  qed
  then show ?thesis
    using assms by (simp add: smooth_l1_def bind_def tf_sub_def broadcast2_def Let_def)
qed

lemma smooth_l1_zero_sigma:
  "length y_true = length y_pred \<Longrightarrow> smooth_l1 y_true y_pred 0 = Inl ZeroDivisionError"
  by (simp add: smooth_l1_def bind_def tf_sub_def broadcast2_def Let_def)

lemma smooth_l1_pair_formula: "sg \<noteq> 0 \<Longrightarrow> smooth_l1_pair sg t p = smooth_l1_formula sg t p"
  by (simp add: smooth_l1_pair_def smooth_l1_map2)

lemma smooth_l1_formula_nonneg:
  assumes "sg \<noteq> 0"
  shows "0 \<le> smooth_l1_formula sg t p"
proof -
  have s: "0 < sg\<^sup>2" using assms by simp
  show ?thesis
  proof (cases "\<bar>t - p\<bar> < 1 / sg\<^sup>2")
    case True
    then show ?thesis using s by (simp add: smooth_l1_formula_def Let_def)
  next
    case False
    then have "1 / sg\<^sup>2 \<le> \<bar>t - p\<bar>" by simp
    moreover have "0.5 / sg\<^sup>2 \<le> 1 / sg\<^sup>2"
      using s by (simp add: field_simps)
    ultimately show ?thesis using False by (simp add: smooth_l1_formula_def Let_def)
  qed
qed

text \<open>
  Claim C2. For tensors of equal shape and a positive \<open>sigma\<close>, \<open>smooth_l1\<close> returns a
  tensor of the same shape; with \<open>s = sigma\<^sup>2\<close> and \<open>r = \<bar>y_true - y_pred\<bar>\<close> elementwise,
  each element is \<open>0.5 * s * r\<^sup>2\<close> when \<open>r < 1 / s\<close> and \<open>r - 0.5 / s\<close> otherwise.
  Nothing is reduced: element \<open>i\<close> of the result depends on element \<open>i\<close> of the inputs only.
\<close>

theorem smooth_l1_elementwise:
  assumes "length y_true = length y_pred" and "0 < sg"
  shows "\<exists>out. smooth_l1 y_true y_pred sg = Inr out \<and> length out = length y_true \<and>
           (\<forall>i < length y_true.
              out ! i = (let s = sg ^ 2; r = \<bar>y_true ! i - y_pred ! i\<bar>
                         in if r < 1 / s then 0.5 * s * r ^ 2 else r - 0.5 / s))"
  using assms by (simp add: smooth_l1_map2 smooth_l1_formula_def)

theorem smooth_l1_elementwise_witness:
  "length [0, 1 :: real] = length [0.1, 3 :: real] \<and> (0 :: real) < 3 \<and>
   (\<exists>out. smooth_l1 [0, 1] [0.1, 3] 3 = Inr out \<and> length out = length [0, 1 :: real] \<and>
           (\<forall>i < length [0, 1 :: real].
              out ! i = (let s = 3 ^ 2; r = \<bar>[0, 1] ! i - [0.1, 3] ! i\<bar>
                         in if r < 1 / s then 0.5 * s * r ^ 2 else r - 0.5 / s)))"
  using smooth_l1_elementwise [of "[0, 1]" "[0.1, 3]" 3] by simp

text \<open>
  Claim C10. For tensors of equal shape and \<open>sigma\<^sup>2 > 0\<close>, every element of the tensor
  returned by \<open>smooth_l1\<close> is nonnegative.
\<close>

theorem smooth_l1_nonneg:
  assumes "length y_true = length y_pred" and "0 < sg ^ 2"
  shows "\<exists>out. smooth_l1 y_true y_pred sg = Inr out \<and> (\<forall>v \<in> set out. 0 \<le> v)"
proof -
  have "sg \<noteq> 0" using assms(2) by auto
  then show ?thesis
    using assms(1) by (auto simp: smooth_l1_map2 set_zip smooth_l1_formula_nonneg)
qed

theorem smooth_l1_nonneg_witness:
  "length [0, 1 :: real] = length [0.1, 3 :: real] \<and> (0 :: real) < (- 3) ^ 2 \<and>
   (\<exists>out. smooth_l1 [0, 1] [0.1, 3] (- 3) = Inr out \<and> (\<forall>v \<in> set out. 0 \<le> v))"
  using smooth_l1_nonneg [of "[0, 1]" "[0.1, 3]" "- 3"] by simp

lemma DERIV_min0_sq:
  "((\<lambda>x::real. (min x 0)\<^sup>2) has_real_derivative 2 * min x 0) (at x)"
proof -
  consider "x < 0" | "0 < x" | "x = 0" by linarith
  then show ?thesis
  proof cases
    case 1
    have "((\<lambda>x::real. x\<^sup>2) has_real_derivative 2 * x) (at x)"
      by (auto intro!: derivative_eq_intros)
    then have "((\<lambda>x::real. (min x 0)\<^sup>2) has_real_derivative 2 * x) (at x)"
      by (rule has_field_derivative_transform_within_open [where S = "{..<0}"])
         (use 1 in auto)
    then show ?thesis using 1 by simp
  next
    case 2
    have "((\<lambda>x::real. 0) has_real_derivative 0) (at x)"
      by simp
    then have "((\<lambda>x::real. (min x 0)\<^sup>2) has_real_derivative 0) (at x)"
      by (rule has_field_derivative_transform_within_open [where S = "{0<..}"])
         (use 2 in auto)
    then show ?thesis using 2 by simp
  next
    case 3
    have lim: "(\<lambda>h::real. h) \<midarrow>0\<rightarrow> 0" by simp
    have bound: "norm ((min h 0)\<^sup>2 / h) \<le> norm h * 1" for h :: real
    proof (cases "h < 0")
      case True
      then show ?thesis by (simp add: power2_eq_square)
    next
      case False
      then show ?thesis by simp
    qed
    have "(\<lambda>h::real. (min h 0)\<^sup>2 / h) \<midarrow>0\<rightarrow> 0"
      using lim by (rule tendsto_0_le [where K = 1]) (rule always_eventually, rule allI, rule bound)
    then show ?thesis using 3 by (simp add: DERIV_def)
  qed
qed

lemma smooth_l1_formula_residual:
  assumes "sg \<noteq> 0" and "0 \<le> r"
  shows "smooth_l1_formula sg r 0 = r - 0.5 / sg\<^sup>2 + 0.5 * sg\<^sup>2 * (min (r - 1 / sg\<^sup>2) 0)\<^sup>2"
proof -
  have s: "0 < sg\<^sup>2" using assms(1) by simp
  show ?thesis
  proof (cases "r < 1 / sg\<^sup>2")
    case True
    then have "min (r - 1 / sg\<^sup>2) 0 = r - 1 / sg\<^sup>2" by simp
    with True assms s show ?thesis
      by (simp add: smooth_l1_formula_def Let_def power2_eq_square field_simps)
  next
    case False
    then have "min (r - 1 / sg\<^sup>2) 0 = 0" by simp
    with False assms(2) show ?thesis
      by (simp add: smooth_l1_formula_def Let_def)
  qed
qed

lemma DERIV_smooth_l1_pair:
  assumes "sg \<noteq> 0" and "0 < r"
  shows "((\<lambda>r. smooth_l1_pair sg r 0) has_real_derivative min (sg\<^sup>2 * r) 1) (at r)"
proof -
  have s: "0 < sg\<^sup>2" using assms(1) by simp
  have "((\<lambda>r. r - 1 / sg\<^sup>2) has_real_derivative 1) (at r)"
    by (auto intro!: derivative_eq_intros)
  then have "((\<lambda>r. (min (r - 1 / sg\<^sup>2) 0)\<^sup>2)
          has_real_derivative 2 * min (r - 1 / sg\<^sup>2) 0 * 1) (at r)"
    by (rule DERIV_chain' [where g = "\<lambda>x. (min x 0)\<^sup>2"]) (rule DERIV_min0_sq)
  then have "((\<lambda>r. 0.5 * sg\<^sup>2 * (min (r - 1 / sg\<^sup>2) 0)\<^sup>2)
          has_real_derivative 0.5 * sg\<^sup>2 * (2 * min (r - 1 / sg\<^sup>2) 0 * 1)) (at r)"
    by (rule DERIV_cmult)
  moreover have "((\<lambda>r. r - 0.5 / sg\<^sup>2) has_real_derivative 1) (at r)"
    by (auto intro!: derivative_eq_intros)
  ultimately have "((\<lambda>r. r - 0.5 / sg\<^sup>2 + 0.5 * sg\<^sup>2 * (min (r - 1 / sg\<^sup>2) 0)\<^sup>2)
          has_real_derivative 1 + 0.5 * sg\<^sup>2 * (2 * min (r - 1 / sg\<^sup>2) 0 * 1)) (at r)"
    by (intro DERIV_add)
  moreover have "1 + 0.5 * sg\<^sup>2 * (2 * min (r - 1 / sg\<^sup>2) 0 * 1) = min (sg\<^sup>2 * r) 1"
    using s by (simp add: min_def field_simps)
  ultimately have "((\<lambda>r. r - 0.5 / sg\<^sup>2 + 0.5 * sg\<^sup>2 * (min (r - 1 / sg\<^sup>2) 0)\<^sup>2)
          has_real_derivative min (sg\<^sup>2 * r) 1) (at r)"
    by simp
  then show ?thesis
    by (rule has_field_derivative_transform_within_open [where S = "{0<..}"])
       (use assms in \<open>auto simp: smooth_l1_pair_formula smooth_l1_formula_residual\<close>)
qed


text \<open>
  Claim C5. For a positive \<open>sigma\<close>, the two branch formulas of \<open>smooth_l1\<close> agree at the
  transition point \<open>r = 1 / sigma\<^sup>2\<close>: both have the value \<open>0.5 / sigma\<^sup>2\<close> and the derivative 1
  with respect to \<open>r\<close> there. Hence the loss as a function of the residual is continuous at the
  transition point and differentiable at every positive residual, with the derivative
  \<open>min (sigma\<^sup>2 * r) 1\<close>, which is continuous at the transition point (exact real arithmetic).
\<close>

theorem smooth_l1_branches_meet:
  assumes "0 < sg"
  shows "quadratic_branch (sg\<^sup>2) [1 / sg\<^sup>2] = [0.5 / sg\<^sup>2] \<and>
         linear_branch (sg\<^sup>2) [1 / sg\<^sup>2] = [0.5 / sg\<^sup>2] \<and>
         ((\<lambda>r. hd (quadratic_branch (sg\<^sup>2) [r])) has_real_derivative 1) (at (1 / sg\<^sup>2)) \<and>
         ((\<lambda>r. hd (linear_branch (sg\<^sup>2) [r])) has_real_derivative 1) (at (1 / sg\<^sup>2)) \<and>
         isCont (\<lambda>r. smooth_l1_pair sg r 0) (1 / sg\<^sup>2) \<and>
         (\<forall>r > 0. ((\<lambda>r. smooth_l1_pair sg r 0) has_real_derivative min (sg\<^sup>2 * r) 1) (at r)) \<and>
         isCont (\<lambda>r. min (sg\<^sup>2 * r) 1) (1 / sg\<^sup>2)"
proof -
  have sg: "sg \<noteq> 0" and s: "0 < sg\<^sup>2" and pos: "0 < 1 / sg\<^sup>2"
    using assms by simp_all
  have vals: "quadratic_branch (sg\<^sup>2) [1 / sg\<^sup>2] = [0.5 / sg\<^sup>2]"
    "linear_branch (sg\<^sup>2) [1 / sg\<^sup>2] = [0.5 / sg\<^sup>2]"
    using sg by (simp_all add: quadratic_branch_def linear_branch_def K_pow_def
        power2_eq_square field_simps)
  have "((\<lambda>r. 0.5 * sg\<^sup>2 * r\<^sup>2) has_real_derivative 1) (at (1 / sg\<^sup>2))"
    using sg by (auto intro!: derivative_eq_intros)
  then have quad: "((\<lambda>r. hd (quadratic_branch (sg\<^sup>2) [r])) has_real_derivative 1) (at (1 / sg\<^sup>2))"
    by (simp add: quadratic_branch_def K_pow_def)
  have "((\<lambda>r. r - 0.5 / sg\<^sup>2) has_real_derivative 1) (at (1 / sg\<^sup>2))"
    by (auto intro!: derivative_eq_intros)
  then have lin: "((\<lambda>r. hd (linear_branch (sg\<^sup>2) [r])) has_real_derivative 1) (at (1 / sg\<^sup>2))"
    by (simp add: linear_branch_def)
  have deriv: "((\<lambda>r. smooth_l1_pair sg r 0) has_real_derivative min (sg\<^sup>2 * r) 1) (at r)"
    if "0 < r" for r
    using sg that by (rule DERIV_smooth_l1_pair)
  have cont: "isCont (\<lambda>r. smooth_l1_pair sg r 0) (1 / sg\<^sup>2)"
    using deriv [OF pos] by (rule DERIV_isCont)
  have cont': "isCont (\<lambda>r. min (sg\<^sup>2 * r) 1) (1 / sg\<^sup>2)"
    by (intro continuous_intros)
  from vals quad lin cont deriv cont' show ?thesis by blast
qed

theorem smooth_l1_branches_meet_witness:
  "quadratic_branch 9 [1 / 9] = [1 / 18] \<and> linear_branch 9 [1 / 9] = [1 / 18] \<and>
   ((\<lambda>r. hd (quadratic_branch 9 [r])) has_real_derivative 1) (at (1 / 9)) \<and>
   ((\<lambda>r. hd (linear_branch 9 [r])) has_real_derivative 1) (at (1 / 9)) \<and>
   ((\<lambda>r. smooth_l1_pair 3 r 0) has_real_derivative 1) (at (1 / 9))"
proof -
  have "(0 :: real) < 3" by simp
  from smooth_l1_branches_meet [OF this]
  have *: "quadratic_branch 9 [1 / 9] = [1 / 18]" "linear_branch 9 [1 / 9] = [1 / 18]"
    "((\<lambda>r. hd (quadratic_branch 9 [r])) has_real_derivative 1) (at (1 / 9))"
    "((\<lambda>r. hd (linear_branch 9 [r])) has_real_derivative 1) (at (1 / 9))"
    "\<forall>r > 0. ((\<lambda>r. smooth_l1_pair 3 r 0) has_real_derivative min (9 * r) 1) (at r)"
    by simp_all
  from *(5) have "(0 :: real) < 1 / 9 \<longrightarrow>
      ((\<lambda>r. smooth_l1_pair 3 r 0) has_real_derivative min (9 * (1 / 9)) 1) (at (1 / 9))"
    by (rule spec)
  with *(1-4) show ?thesis by simp
qed

section \<open>Properties of the regression loss\<close>

lemma set_tf_where:
  "set (tf_where m) = {(b, y, x). b < dim0 m \<and> y < dim1 m \<and> x < dim2 m \<and> at3 m b y x}"
  by (auto simp: tf_where_def image_iff)

lemma distinct_concat_upt:
  assumes "\<And>i. distinct (f i)" and "\<And>i j. i \<noteq> j \<Longrightarrow> set (f i) \<inter> set (f j) = {}"
  shows "distinct (concat (map f [0..<n]))"
proof (induction n)
  case 0
  show ?case by simp
next
  case (Suc n)
  have "x \<notin> set (f n)" if "i < n" and "x \<in> set (f i)" for i x
    using assms(2) [of i n] that by auto
  then have "set (concat (map f [0..<n])) \<inter> set (f n) = {}"
    by auto
  with Suc assms(1) show ?case by simp
qed

lemma distinct_tf_where: "distinct (tf_where m)"
  unfolding tf_where_def
  by (intro distinct_concat_upt) (auto simp: distinct_map inj_on_def)

lemma set_near_pt_indices: "set (near_pt_indices self y_true) = selected self y_true"
  by (auto simp: near_pt_indices_def set_tf_where near_pt_mask_def logical_and_def
      K_less_equal3_def K_less3_def channel_def selected_def Let_def)

lemma distinct_near_pt_indices: "distinct (near_pt_indices self y_true)"
  by (simp add: near_pt_indices_def distinct_tf_where)

lemma length_near_pt_indices: "length (near_pt_indices self y_true) = card (selected self y_true)"
  using distinct_card [OF distinct_near_pt_indices, of self y_true]
  by (simp add: set_near_pt_indices)

lemma in_shape_iff:
  "in_shape t indices \<longleftrightarrow> (\<forall>(b, y, x) \<in> set indices. b < dim0 t \<and> y < dim1 t \<and> x < dim2 t)"
  by (simp add: in_shape_def list_all_iff)

lemma sum_list_map2_same:
  "(\<Sum>p\<leftarrow>zip (map g xs) (map h xs). f (fst p) (snd p)) = (\<Sum>x\<leftarrow>xs. f (g x) (h x))"
  by (induction xs) simp_all

lemma regression_loss_on_eq:
  "regression_loss_on sg yt xt yp xp idx =
     (if \<not> (in_shape yt idx \<and> in_shape xt idx \<and> in_shape yp idx \<and> in_shape xp idx)
      then Inl InvalidArgument
      else if sg = 0 then Inl ZeroDivisionError
      else Inr ((\<Sum>(b, y, x)\<leftarrow>idx. smooth_l1_formula sg (at3 yt b y x) (at3 yp b y x) +
                                 smooth_l1_formula sg (at3 xt b y x) (at3 xp b y x))
                / real (max 1 (length idx))))"
  by (auto simp: regression_loss_on_def gather_nd_def bind_def smooth_l1_map2
      smooth_l1_zero_sigma sum_list_map2_same Let_def case_prod_unfold sum_list_addf)

lemma regression_loss_unfold:
  assumes "1 < channels y_true" and "1 < channels y_pred"
  shows "regression_loss self y_true y_pred =
     regression_loss_on (sigma self) (channel y_true 0) (channel y_true 1)
       (channel y_pred 0) (channel y_pred 1) (near_pt_indices self y_true)"
  using assms by (simp add: regression_loss_def last_axis_def bind_def Let_def near_pt_indices_def)

lemma in_shape_near_pt_indices:
  assumes "batch y_true \<le> batch t" and "Ly y_true \<le> Ly t" and "Lx y_true \<le> Lx t"
  shows "in_shape (channel t c) (near_pt_indices self y_true)"
  using assms by (auto simp: in_shape_iff set_near_pt_indices selected_def channel_def)

lemma selected_example: "selected example_losses example_true = {(0, 1, 1)}"
  by (auto simp: selected_def example_losses_def example_true_def)

lemma selected_example_offsets:
  "selected example_losses example_offsets = {(0, 0, 0), (0, 1, 1)}"
  by (auto simp: selected_def example_losses_def example_offsets_def split: if_splits)

text \<open>
  Claim C1. For ground-truth and predicted offset tensors of one shape (batch, H, W, 2) and a
  configuration with a nonzero \<open>sigma\<close>, \<open>regression_loss\<close> returns \<open>S / max 1 n\<close>: a pixel is
  selected iff both of its ground-truth offsets lie in the interval from \<open>- (0.5 + d_pixels)\<close>
  (included) to \<open>0.5 + d_pixels\<close> (excluded), \<open>n\<close> is the number of selected pixels, and \<open>S\<close> is
  the sum over the selected pixels of the smooth-L1 loss of the two \<open>\<Delta>y\<close> values plus the
  smooth-L1 loss of the two \<open>\<Delta>x\<close> values. The smooth-L1 loss of a pair is the two-branch
  formula of the specification, \<open>smooth_l1_formula\<close>, and the selection is \<open>selected\<close>.
\<close>

theorem regression_loss_value:
  assumes "same_shape y_true y_pred" and "channels y_true = 2" and "sigma self \<noteq> 0"
  shows "regression_loss self y_true y_pred =
     Inr ((\<Sum>(b, y, x) \<in> selected self y_true.
             smooth_l1_formula (sigma self) (at4 y_true b y x 0) (at4 y_pred b y x 0) +
             smooth_l1_formula (sigma self) (at4 y_true b y x 1) (at4 y_pred b y x 1))
          / real (max 1 (card (selected self y_true))))"
proof -
  let ?idx = "near_pt_indices self y_true"
  have ch: "1 < channels y_true" "1 < channels y_pred"
    using assms(1,2) by (simp_all add: same_shape_def)
  have shape: "in_shape (channel y_pred c) ?idx" "in_shape (channel y_true c) ?idx" for c
    using assms(1) by (simp_all add: in_shape_near_pt_indices same_shape_def)
  have "regression_loss self y_true y_pred =
      Inr ((\<Sum>(b, y, x)\<leftarrow>?idx.
              smooth_l1_formula (sigma self) (at4 y_true b y x 0) (at4 y_pred b y x 0) +
              smooth_l1_formula (sigma self) (at4 y_true b y x 1) (at4 y_pred b y x 1))
           / real (max 1 (length ?idx)))"
    using assms(3)
    by (simp add: regression_loss_unfold [OF ch] regression_loss_on_eq shape) (simp add: channel_def)
  also have "(\<Sum>(b, y, x)\<leftarrow>?idx.
              smooth_l1_formula (sigma self) (at4 y_true b y x 0) (at4 y_pred b y x 0) +
              smooth_l1_formula (sigma self) (at4 y_true b y x 1) (at4 y_pred b y x 1))
      = (\<Sum>(b, y, x) \<in> selected self y_true.
             smooth_l1_formula (sigma self) (at4 y_true b y x 0) (at4 y_pred b y x 0) +
             smooth_l1_formula (sigma self) (at4 y_true b y x 1) (at4 y_pred b y x 1))"
    by (simp add: sum_list_distinct_conv_sum_set [OF distinct_near_pt_indices]
        set_near_pt_indices)
  finally show ?thesis by (simp add: length_near_pt_indices)
qed

theorem regression_loss_value_witness:
  "same_shape example_true example_pred \<and> channels example_true = 2 \<and>
   same_shape example_offsets example_pred \<and> channels example_offsets = 2 \<and>
   sigma example_losses \<noteq> 0 \<and>
   regression_loss example_losses example_true example_pred = Inr (9 / 100) \<and>
   regression_loss example_losses example_offsets example_pred = Inr (3209 / 14400)"
proof -
  have h: "same_shape example_true example_pred" "channels example_true = 2"
    "sigma example_losses \<noteq> 0"
    by (simp_all add: same_shape_def example_true_def example_pred_def example_losses_def)
  have h': "same_shape example_offsets example_pred" "channels example_offsets = 2"
    by (simp_all add: same_shape_def example_offsets_def example_pred_def)
  have quadratic: "smooth_l1_formula 3 0 (1 / 10) = 9 / 200"
    "smooth_l1_formula 3 0 (- (1 / 10)) = 9 / 200"
    "smooth_l1_formula 3 (3 / 20) (1 / 10) = 9 / 800"
    by (simp_all add: smooth_l1_formula_def power2_eq_square)
  have linear: "smooth_l1_formula 3 (- (1 / 2)) (- (1 / 10)) = 31 / 90"
    by (simp add: smooth_l1_formula_def power2_eq_square)
  have "regression_loss example_losses example_true example_pred = Inr (9 / 100)"
    using quadratic regression_loss_value [OF h]
    by (simp add: selected_example) (simp add: example_true_def example_pred_def example_losses_def)
  moreover have "regression_loss example_losses example_offsets example_pred = Inr (3209 / 14400)"
    using quadratic linear regression_loss_value [OF h'(1,2) h(3)]
    by (simp add: selected_example_offsets)
       (simp add: example_offsets_def example_pred_def example_losses_def)
  ultimately show ?thesis using h h' by simp
qed

text \<open>
  Claim C3. When no pixel of the ground truth is selected (at every pixel \<open>\<Delta>y\<close> or \<open>\<Delta>x\<close> lies
  outside the half-open interval), \<open>regression_loss\<close> returns exactly 0 and raises nothing,
  whatever the prediction is; \<open>sigma\<close> is nonzero as the configuration requires.
\<close>

theorem regression_loss_none_selected:
  assumes "channels y_true = 2" and "channels y_pred = 2" and "sigma self \<noteq> 0"
    and "\<forall>b < batch y_true. \<forall>y < Ly y_true. \<forall>x < Lx y_true.
           \<not> (- (0.5 + d_pixels self) \<le> at4 y_true b y x 0 \<and>
              at4 y_true b y x 0 < 0.5 + d_pixels self) \<or>
           \<not> (- (0.5 + d_pixels self) \<le> at4 y_true b y x 1 \<and>
              at4 y_true b y x 1 < 0.5 + d_pixels self)"
  shows "regression_loss self y_true y_pred = Inr 0"
proof -
  have "selected self y_true = {}"
    using assms(4) by (auto simp: selected_def)
  then have "near_pt_indices self y_true = []"
    using set_near_pt_indices [of self y_true] by simp
  then show ?thesis
    using assms(1-3) by (simp add: regression_loss_unfold regression_loss_on_eq in_shape_def)
qed

theorem regression_loss_none_selected_witness:
  "channels example_far = 2 \<and> channels example_pred = 2 \<and> sigma example_losses \<noteq> 0 \<and>
   regression_loss example_losses example_far example_pred = Inr 0"
  using regression_loss_none_selected [of example_far example_pred example_losses]
  by (simp add: example_far_def example_pred_def example_losses_def)

lemma sum_list_map_mset:
  fixes f :: "'a \<Rightarrow> real"
  shows "mset xs = mset ys \<Longrightarrow> sum_list (map f xs) = sum_list (map f ys)"
proof -
  assume "mset xs = mset ys"
  then have "mset (map f xs) = mset (map f ys)" by simp
  then have "sum_mset (mset (map f xs)) = sum_mset (mset (map f ys))" by (rule arg_cong)
  then show ?thesis by (simp only: sum_mset_sum_list)
qed

lemma regression_loss_on_mset:
  assumes "mset idx = mset idx'"
  shows "regression_loss_on sg yt xt yp xp idx = regression_loss_on sg yt xt yp xp idx'"
proof -
  have "set idx = set idx'" "length idx = length idx'"
    using assms by (auto dest: mset_eq_setD mset_eq_length)
  then show ?thesis
    using sum_list_map_mset [OF assms, of "\<lambda>(b, y, x).
        smooth_l1_formula sg (at3 yt b y x) (at3 yp b y x) +
        smooth_l1_formula sg (at3 xt b y x) (at3 xp b y x)"]
    by (simp add: regression_loss_on_eq in_shape_iff)
qed

lemma near_pt_indices_two_spots:
  "near_pt_indices example_losses example_two_spots = [(0, 0, 0), (0, 1, 1)]"
  by (simp add: near_pt_indices_def tf_where_def near_pt_mask_def logical_and_def
      K_less_equal3_def K_less3_def channel_def example_losses_def example_two_spots_def
      upt_rec [of 0 "numeral n" for n] upt_rec [of "Suc n" for n] numeral_3_eq_3)

text \<open>
  Claim C8. The result of \<open>regression_loss\<close> does not depend on the order in which the
  selected coordinates are enumerated: running the rest of the function, from the gathers on,
  with any permutation of the index list (the same list for all four gathers) gives the value
  that \<open>regression_loss\<close> returns.
\<close>

theorem regression_loss_order_invariant:
  assumes "channels y_true = 2" and "channels y_pred = 2"
    and "mset idx = mset (near_pt_indices self y_true)"
  shows "regression_loss_on (sigma self) (channel y_true 0) (channel y_true 1)
           (channel y_pred 0) (channel y_pred 1) idx
         = regression_loss self y_true y_pred"
  using assms by (simp add: regression_loss_unfold regression_loss_on_mset [OF assms(3)])

theorem regression_loss_order_invariant_witness:
  "channels example_two_spots = 2 \<and> channels example_pred = 2 \<and>
   mset [(0, 1, 1), (0, 0, 0)] = mset (near_pt_indices example_losses example_two_spots) \<and>
   regression_loss_on (sigma example_losses) (channel example_two_spots 0)
     (channel example_two_spots 1) (channel example_pred 0) (channel example_pred 1)
     [(0, 1, 1), (0, 0, 0)]
   = regression_loss example_losses example_two_spots example_pred"
proof -
  have h: "channels example_two_spots = 2" "channels example_pred = 2"
    "mset [(0, 1, 1), (0, 0, 0)] = mset (near_pt_indices example_losses example_two_spots)"
    by (simp_all add: near_pt_indices_two_spots) (simp_all add: example_two_spots_def example_pred_def)
  show ?thesis
    using h regression_loss_order_invariant [OF h] by simp
qed

text \<open>
  Claim C9. Two predictions of one shape that agree in both offset channels at every pixel
  selected by the ground truth give the same \<open>regression_loss\<close>: the predicted values at
  unselected pixels have no influence.
\<close>

theorem regression_loss_unselected_irrelevant:
  assumes "same_shape y_pred y_pred'"
    and "\<forall>(b, y, x) \<in> selected self y_true.
           at4 y_pred b y x 0 = at4 y_pred' b y x 0 \<and> at4 y_pred b y x 1 = at4 y_pred' b y x 1"
  shows "regression_loss self y_true y_pred = regression_loss self y_true y_pred'"
proof (cases "1 < channels y_true \<and> 1 < channels y_pred")
  case True
  then have ch: "1 < channels y_true" "1 < channels y_pred" "1 < channels y_pred'"
    using assms(1) by (simp_all add: same_shape_def)
  let ?idx = "near_pt_indices self y_true"
  have shape: "in_shape (channel y_pred c) ?idx = in_shape (channel y_pred' c) ?idx" for c
    using assms(1) by (simp add: in_shape_iff channel_def same_shape_def)
  have "(\<Sum>(b, y, x)\<leftarrow>?idx.
           smooth_l1_formula (sigma self) (at3 (channel y_true 0) b y x) (at3 (channel y_pred 0) b y x) +
           smooth_l1_formula (sigma self) (at3 (channel y_true 1) b y x) (at3 (channel y_pred 1) b y x))
      = (\<Sum>(b, y, x)\<leftarrow>?idx.
           smooth_l1_formula (sigma self) (at3 (channel y_true 0) b y x) (at3 (channel y_pred' 0) b y x) +
           smooth_l1_formula (sigma self) (at3 (channel y_true 1) b y x) (at3 (channel y_pred' 1) b y x))"
    using assms(2)
    by (intro arg_cong [where f = sum_list] map_cong refl)
       (auto simp: set_near_pt_indices channel_def)
  then show ?thesis
    unfolding regression_loss_unfold [OF ch(1,2)] regression_loss_unfold [OF ch(1,3)]
    by (simp add: regression_loss_on_eq shape)
next
  case False
  then show ?thesis
    using assms(1) by (auto simp: regression_loss_def last_axis_def bind_def same_shape_def)
qed


theorem regression_loss_unselected_irrelevant_witness:
  "same_shape example_pred example_pred_other \<and>
   at4 example_pred 0 0 0 0 \<noteq> at4 example_pred_other 0 0 0 0 \<and>
   regression_loss example_losses example_true example_pred =
   regression_loss example_losses example_true example_pred_other"
  using regression_loss_unselected_irrelevant [of example_pred example_pred_other
      example_losses example_true]
  by (simp add: selected_example) (simp add: same_shape_def example_pred_def example_pred_other_def)

section \<open>Properties of the regularization terms\<close>

lemma sum_list_upt_sum:
  fixes f :: "nat \<Rightarrow> real"
  shows "(\<Sum>i\<leftarrow>[0..<n]. f i) = (\<Sum>i<n. f i)"
  by (simp add: interv_sum_list_conv_sum_set_nat atLeast0LessThan)

lemma K_sum3_eq: "K_sum3 t = (\<Sum>b<dim0 t. \<Sum>y<dim1 t. \<Sum>x<dim2 t. at3 t b y x)"
  by (simp add: K_sum3_def sum_list_upt_sum)

lemma foldr_fadd_Finite: "foldr fadd (map Finite xs) (Finite 0) = Finite (sum_list xs)"
  by (induction xs) simp_all

lemma K_mean_Finite:
  "xs \<noteq> [] \<Longrightarrow> K_mean (map Finite xs) = Finite (sum_list xs / real (length xs))"
  by (simp add: K_mean_def foldr_fadd_Finite)

lemma K_mean_axis12_channel:
  assumes "0 < Ly t" and "0 < Lx t"
  shows "K_mean_axis12 (channel t 1) = map (\<lambda>b. Finite (spatial_mean t b)) [0..<batch t]"
  using assms by (simp add: K_mean_axis12_def channel_def spatial_mean_def sum_list_upt_sum)

lemma map2_map_same: "map2 f (map g xs) (map h xs) = map (\<lambda>x. f (g x) (h x)) xs"
  by (induction xs) simp_all

lemma N_loss_eq:
  assumes "same_shape y_true y_pred" and "1 < channels y_pred"
    and "0 < batch y_pred" and "0 < Ly y_pred" and "0 < Lx y_pred"
  shows "N_loss y_true y_pred =
     Inr (Finite ((\<Sum>b\<leftarrow>[0..<batch y_pred]. (spatial_mean y_pred b - spatial_mean y_true b)\<^sup>2)
                  / real (batch y_pred)))"
proof -
  let ?B = "[0..<batch y_pred]"
  have sh: "batch y_true = batch y_pred" "Ly y_true = Ly y_pred" "Lx y_true = Lx y_pred"
    "channels y_true = channels y_pred"
    using assms(1) by (simp_all add: same_shape_def)
  have pred: "K_mean_axis12 (channel y_pred 1) = map (\<lambda>b. Finite (spatial_mean y_pred b)) ?B"
    using assms(4,5) by (rule K_mean_axis12_channel)
  have true: "K_mean_axis12 (channel y_true 1) = map (\<lambda>b. Finite (spatial_mean y_true b)) ?B"
    using K_mean_axis12_channel [of y_true] assms(4,5) sh by simp
  have diff: "broadcast2 fsub (K_mean_axis12 (channel y_pred 1)) (K_mean_axis12 (channel y_true 1))
      = Inr (map (\<lambda>b. Finite (spatial_mean y_pred b - spatial_mean y_true b)) ?B)"
    unfolding pred true by (simp add: broadcast2_def map2_map_same)
  have sq: "K_square (map (\<lambda>b. Finite (spatial_mean y_pred b - spatial_mean y_true b)) ?B)
      = map Finite (map (\<lambda>b. (spatial_mean y_pred b - spatial_mean y_true b)\<^sup>2) ?B)"
    by (simp add: K_square_def power2_eq_square)
  have "N_loss y_true y_pred =
      Inr (K_mean (K_square (map (\<lambda>b. Finite (spatial_mean y_pred b - spatial_mean y_true b)) ?B)))"
    unfolding N_loss_def last_axis_def using assms(2) sh(4) by (simp add: bind_def diff [unfolded One_nat_def])
  also have "\<dots> = Inr (Finite ((\<Sum>b\<leftarrow>?B. (spatial_mean y_pred b - spatial_mean y_true b)\<^sup>2)
                  / real (batch y_pred)))"
    unfolding sq using assms(3) by (subst K_mean_Finite) simp_all
  finally show ?thesis .
qed

lemma spatial_mean_examples:
  "spatial_mean example_cls_pred 0 = 1 / 2" "spatial_mean example_cls_true 0 = 1 / 2"
  by (simp_all add: spatial_mean_def example_cls_pred_def example_cls_true_def
      lessThan_Suc numeral_2_eq_2)

text \<open>
  Claim C7. For classification tensors of one shape (with at least one image, one row, one
  column and a spot-class channel) whose predicted and ground-truth spot-class channels have
  the same spatial mean in every image, the count-mismatch term is exactly 0, also when the
  two channels differ pointwise.
\<close>

theorem N_loss_equal_means:
  assumes "same_shape y_true y_pred" and "1 < channels y_pred"
    and "0 < batch y_pred" and "0 < Ly y_pred" and "0 < Lx y_pred"
    and "\<forall>b < batch y_pred. spatial_mean y_pred b = spatial_mean y_true b"
  shows "N_loss y_true y_pred = Inr (Finite 0)"
proof -
  have "(\<Sum>b\<leftarrow>[0..<batch y_pred]. (spatial_mean y_pred b - spatial_mean y_true b)\<^sup>2) = 0"
    using assms(6) by (simp add: sum_list_upt_sum)
  then show ?thesis
    by (simp add: N_loss_eq [OF assms(1-5)])
qed

theorem N_loss_equal_means_witness:
  "same_shape example_cls_true example_cls_pred \<and> 1 < channels example_cls_pred \<and>
   0 < batch example_cls_pred \<and> 0 < Ly example_cls_pred \<and> 0 < Lx example_cls_pred \<and>
   at4 example_cls_pred 0 0 0 1 \<noteq> at4 example_cls_true 0 0 0 1 \<and>
   N_loss example_cls_true example_cls_pred = Inr (Finite 0)"
proof -
  have h: "same_shape example_cls_true example_cls_pred" "1 < channels example_cls_pred"
    "0 < batch example_cls_pred" "0 < Ly example_cls_pred" "0 < Lx example_cls_pred"
    by (simp_all add: same_shape_def example_cls_true_def example_cls_pred_def)
  have m: "\<forall>b < batch example_cls_pred.
      spatial_mean example_cls_pred b = spatial_mean example_cls_true b"
  proof -
    have "batch example_cls_pred = 1" by (simp add: example_cls_pred_def)
    then show ?thesis by (simp add: spatial_mean_examples)
  qed
  have "at4 example_cls_pred 0 0 0 1 \<noteq> at4 example_cls_true 0 0 0 1"
    by (simp add: example_cls_true_def example_cls_pred_def)
  with h N_loss_equal_means [OF h m] show ?thesis by simp
qed

lemma sum3_nonneg:
  fixes f :: "nat \<Rightarrow> nat \<Rightarrow> nat \<Rightarrow> real"
  assumes "\<And>b y x. b < B \<Longrightarrow> 0 \<le> f b y x"
  shows "0 \<le> (\<Sum>b<B. \<Sum>y<H. \<Sum>x<W. f b y x)"
  by (intro sum_nonneg) (simp add: assms)

lemma sum3_pos:
  fixes f :: "nat \<Rightarrow> nat \<Rightarrow> nat \<Rightarrow> real"
  assumes nonneg: "\<And>b y x. b < B \<Longrightarrow> 0 \<le> f b y x"
    and "b < B" and "y < H" and "x < W" and "0 < f b y x"
  shows "0 < (\<Sum>b<B. \<Sum>y<H. \<Sum>x<W. f b y x)"
proof -
  have inner: "0 \<le> (\<Sum>x<W. f b y' x)" for y'
    using nonneg [OF \<open>b < B\<close>] by (simp add: sum_nonneg)
  have middle: "0 \<le> (\<Sum>y<H. \<Sum>x<W. f b' y x)" if "b' < B" for b'
    using nonneg [OF that] by (simp add: sum_nonneg)
  have "0 < (\<Sum>x<W. f b y x)"
    by (rule sum_pos2 [where i = x]) (use assms in simp_all)
  then have "0 < (\<Sum>y<H. \<Sum>x<W. f b y x)"
    by (rule sum_pos2 [where i = y, rotated 2]) (use \<open>y < H\<close> inner in simp_all)
  then show ?thesis
    by (rule sum_pos2 [where i = b, rotated 2]) (use \<open>b < B\<close> middle in simp_all)
qed

lemma inter_loss_eq:
  assumes "1 < channels y_pred"
  shows "inter_loss y_pred =
     Inr (div_count (Finite (vertical_pairs y_pred + horizontal_pairs y_pred))
            (batch y_pred * Ly y_pred * Lx y_pred))"
proof -
  have "last_axis (spatial_2d_padding y_pred) 1 = Inr (channel (spatial_2d_padding y_pred) 1)"
    using assms by (simp add: last_axis_def spatial_2d_padding_def)
  moreover have "K_sum3 (tf_mul3 (rows_from_1 (channel (spatial_2d_padding y_pred) 1))
                   (rows_to_last (channel (spatial_2d_padding y_pred) 1))) = vertical_pairs y_pred"
    by (simp add: K_sum3_eq tf_mul3_def rows_from_1_def rows_to_last_def channel_def
        vertical_pairs_def) (simp add: spatial_2d_padding_def)
  moreover have "K_sum3 (tf_mul3 (cols_from_1 (channel (spatial_2d_padding y_pred) 1))
                   (cols_to_last (channel (spatial_2d_padding y_pred) 1))) = horizontal_pairs y_pred"
    by (simp add: K_sum3_eq tf_mul3_def cols_from_1_def cols_to_last_def channel_def
        horizontal_pairs_def) (simp add: spatial_2d_padding_def)
  ultimately show ?thesis
    by (simp add: inter_loss_def bind_def Let_def)
qed

lemma padded_nonneg:
  assumes "\<forall>b < batch t. \<forall>y < Ly t. \<forall>x < Lx t. 0 \<le> at4 t b y x 1" and "b < batch t"
  shows "0 \<le> at4 (spatial_2d_padding t) b y x 1"
proof (cases "1 \<le> y \<and> y \<le> Ly t \<and> 1 \<le> x \<and> x \<le> Lx t")
  case True
  then have "y - 1 < Ly t" "x - 1 < Lx t" by auto
  with assms True show ?thesis by (simp add: spatial_2d_padding_def)
next
  case False
  then show ?thesis by (auto simp: spatial_2d_padding_def)
qed

lemma padded_inside:
  "y < Ly t \<Longrightarrow> x < Lx t \<Longrightarrow> at4 (spatial_2d_padding t) b (y + 1) (x + 1) c = at4 t b y x c"
  by (simp add: spatial_2d_padding_def)

lemma padded_pair_nonneg:
  assumes "\<forall>b < batch t. \<forall>y < Ly t. \<forall>x < Lx t. 0 \<le> at4 t b y x 1" and "b < batch t"
  shows "0 \<le> at4 (spatial_2d_padding t) b y' x' 1 * at4 (spatial_2d_padding t) b y x 1"
  by (intro mult_nonneg_nonneg padded_nonneg [OF assms])

lemma pairs_nonneg:
  assumes "\<forall>b < batch t. \<forall>y < Ly t. \<forall>x < Lx t. 0 \<le> at4 t b y x 1"
  shows "0 \<le> vertical_pairs t" and "0 \<le> horizontal_pairs t"
  unfolding vertical_pairs_def horizontal_pairs_def
  by (rule sum3_nonneg, rule padded_pair_nonneg [OF assms], assumption)+

lemma vertical_pairs_pos:
  assumes nonneg: "\<forall>b < batch t. \<forall>y < Ly t. \<forall>x < Lx t. 0 \<le> at4 t b y x 1"
    and "b < batch t" and "y + 1 < Ly t" and "x < Lx t"
    and "0 < at4 t b y x 1" and "0 < at4 t b (y + 1) x 1"
  shows "0 < vertical_pairs t"
  unfolding vertical_pairs_def
proof (rule sum3_pos [where b = b and y = "y + 1" and x = "x + 1"])
  show "0 < at4 (spatial_2d_padding t) b (y + 1 + 1) (x + 1) 1 *
            at4 (spatial_2d_padding t) b (y + 1) (x + 1) 1"
    using assms(3-6) by (simp only: padded_inside) simp
  show "0 \<le> at4 (spatial_2d_padding t) b' (y' + 1) x' 1 * at4 (spatial_2d_padding t) b' y' x' 1"
    if "b' < batch t" for b' y' x'
    using nonneg that by (rule padded_pair_nonneg)
  show "b < batch t" "y + 1 < Ly t + 1" "x + 1 < Lx t + 2"
    using assms(2-4) by simp_all
qed

lemma horizontal_pairs_pos:
  assumes nonneg: "\<forall>b < batch t. \<forall>y < Ly t. \<forall>x < Lx t. 0 \<le> at4 t b y x 1"
    and "b < batch t" and "y < Ly t" and "x + 1 < Lx t"
    and "0 < at4 t b y x 1" and "0 < at4 t b y (x + 1) 1"
  shows "0 < horizontal_pairs t"
  unfolding horizontal_pairs_def
proof (rule sum3_pos [where b = b and y = "y + 1" and x = "x + 1"])
  show "0 < at4 (spatial_2d_padding t) b (y + 1) (x + 1 + 1) 1 *
            at4 (spatial_2d_padding t) b (y + 1) (x + 1) 1"
    using assms(3-6) by (simp only: padded_inside) simp
  show "0 \<le> at4 (spatial_2d_padding t) b' y' (x' + 1) 1 * at4 (spatial_2d_padding t) b' y' x' 1"
    if "b' < batch t" for b' y' x'
    using nonneg that by (rule padded_pair_nonneg)
  show "b < batch t" "y + 1 < Ly t + 2" "x + 1 < Lx t + 1"
    using assms(2-4) by simp_all
qed

lemma padded_zero:
  assumes "\<forall>b < batch t. \<forall>y < Ly t. \<forall>x < Lx t. at4 t b y x 1 = 0" and "b < batch t"
  shows "at4 (spatial_2d_padding t) b y x 1 = 0"
proof (cases "1 \<le> y \<and> y \<le> Ly t \<and> 1 \<le> x \<and> x \<le> Lx t")
  case True
  then have "y - 1 < Ly t" "x - 1 < Lx t" by auto
  with assms True show ?thesis by (simp add: spatial_2d_padding_def)
next
  case False
  then show ?thesis by (auto simp: spatial_2d_padding_def)
qed

lemma pairs_zero:
  assumes "\<forall>b < batch t. \<forall>y < Ly t. \<forall>x < Lx t. at4 t b y x 1 = 0"
  shows "vertical_pairs t = 0" and "horizontal_pairs t = 0"
  unfolding vertical_pairs_def horizontal_pairs_def
  by (rule sum.neutral, rule ballI,
      simp only: lessThan_iff padded_zero [OF assms] mult_zero_left sum.neutral_const)+

text \<open>
  Claim C6. For a prediction (with at least one image, one row, one column and a spot-class
  channel) whose spot-class values are all nonnegative: the interaction term is exactly 0
  when the spot-class channel is zero everywhere, and strictly positive when two pixels of one
  image that are vertical or horizontal neighbours both have a positive spot-class value.
\<close>

theorem inter_loss_sign:
  assumes "1 < channels y_pred" and "0 < batch y_pred" and "0 < Ly y_pred" and "0 < Lx y_pred"
    and "\<forall>b < batch y_pred. \<forall>y < Ly y_pred. \<forall>x < Lx y_pred. 0 \<le> at4 y_pred b y x 1"
  shows "((\<forall>b < batch y_pred. \<forall>y < Ly y_pred. \<forall>x < Lx y_pred. at4 y_pred b y x 1 = 0) \<longrightarrow>
            inter_loss y_pred = Inr (Finite 0)) \<and>
         ((\<exists>b < batch y_pred. \<exists>y < Ly y_pred. \<exists>x < Lx y_pred.
              0 < at4 y_pred b y x 1 \<and>
              (y + 1 < Ly y_pred \<and> 0 < at4 y_pred b (y + 1) x 1 \<or>
               x + 1 < Lx y_pred \<and> 0 < at4 y_pred b y (x + 1) 1)) \<longrightarrow>
            (\<exists>v. inter_loss y_pred = Inr (Finite v) \<and> 0 < v))"
proof (intro conjI impI)
  assume "\<forall>b < batch y_pred. \<forall>y < Ly y_pred. \<forall>x < Lx y_pred. at4 y_pred b y x 1 = 0"
  then show "inter_loss y_pred = Inr (Finite 0)"
    using assms(2-4) by (simp add: inter_loss_eq [OF assms(1)] pairs_zero)
next
  assume "\<exists>b < batch y_pred. \<exists>y < Ly y_pred. \<exists>x < Lx y_pred.
              0 < at4 y_pred b y x 1 \<and>
              (y + 1 < Ly y_pred \<and> 0 < at4 y_pred b (y + 1) x 1 \<or>
               x + 1 < Lx y_pred \<and> 0 < at4 y_pred b y (x + 1) 1)"
  then obtain b y x where bx: "b < batch y_pred" "y < Ly y_pred" "x < Lx y_pred"
      "0 < at4 y_pred b y x 1"
    and adj: "y + 1 < Ly y_pred \<and> 0 < at4 y_pred b (y + 1) x 1 \<or>
              x + 1 < Lx y_pred \<and> 0 < at4 y_pred b y (x + 1) 1"
    by blast
  have "0 < vertical_pairs y_pred \<or> 0 < horizontal_pairs y_pred"
    using adj vertical_pairs_pos [OF assms(5) bx(1) _ bx(3,4)]
      horizontal_pairs_pos [OF assms(5) bx(1,2) _ bx(4)] by blast
  then have "0 < vertical_pairs y_pred + horizontal_pairs y_pred"
    using pairs_nonneg [OF assms(5)] by linarith
  then show "\<exists>v. inter_loss y_pred = Inr (Finite v) \<and> 0 < v"
    using assms(2-4) by (simp add: inter_loss_eq [OF assms(1)])
qed

theorem inter_loss_sign_witness:
  "inter_loss example_cls_none = Inr (Finite 0) \<and>
   (\<exists>v. inter_loss example_cls_both = Inr (Finite v) \<and> 0 < v)"
proof
  have "\<forall>b < batch example_cls_none. \<forall>y < Ly example_cls_none. \<forall>x < Lx example_cls_none.
          at4 example_cls_none b y x 1 = 0"
    by (simp add: example_cls_none_def)
  moreover have "1 < channels example_cls_none" "0 < batch example_cls_none"
    "0 < Ly example_cls_none" "0 < Lx example_cls_none"
    by (simp_all add: example_cls_none_def)
  ultimately show "inter_loss example_cls_none = Inr (Finite 0)"
    using inter_loss_sign [of example_cls_none] by simp
next
  have "0 < batch example_cls_both \<and> 0 < Ly example_cls_both \<and> 0 < Lx example_cls_both \<and>
        0 < at4 example_cls_both 0 0 0 1 \<and> 0 + 1 < Lx example_cls_both \<and>
        0 < at4 example_cls_both 0 0 (0 + 1) 1"
    by (simp add: example_cls_both_def)
  then have "\<exists>b < batch example_cls_both. \<exists>y < Ly example_cls_both. \<exists>x < Lx example_cls_both.
              0 < at4 example_cls_both b y x 1 \<and>
              (y + 1 < Ly example_cls_both \<and> 0 < at4 example_cls_both b (y + 1) x 1 \<or>
               x + 1 < Lx example_cls_both \<and> 0 < at4 example_cls_both b y (x + 1) 1)"
    by blast
  moreover have "1 < channels example_cls_both" "0 < batch example_cls_both"
    "0 < Ly example_cls_both" "0 < Lx example_cls_both"
    "\<forall>b < batch example_cls_both. \<forall>y < Ly example_cls_both. \<forall>x < Lx example_cls_both.
       0 \<le> at4 example_cls_both b y x 1"
    by (simp_all add: example_cls_both_def)
  ultimately show "\<exists>v. inter_loss example_cls_both = Inr (Finite v) \<and> 0 < v"
    using inter_loss_sign [of example_cls_both] by blast
qed

lemma add_scalar_zero: "add_scalar t (Finite 0) = t"
proof -
  have "fadd v (Finite 0) = v" for v by (cases v) simp_all
  then show ?thesis by (simp add: add_scalar_def)
qed

text \<open>
  Claim C4. With \<open>mu = 0\<close> and \<open>beta = 0\<close>, whatever the focal flag, \<open>gamma\<close>,
  \<open>n_classes\<close> and the external primitives are, \<open>classification_loss_regularized\<close> returns
  exactly what \<open>classification_loss\<close> returns, for classification tensors of one shape with
  at least one image, one row, one column and a spot-class channel.
\<close>

theorem regularized_without_weights:
  assumes "mu self = 0" and "beta self = 0"
    and "same_shape y_true y_pred" and "1 < channels y_pred"
    and "0 < batch y_pred" and "0 < Ly y_pred" and "0 < Lx y_pred"
  shows "classification_loss_regularized losses self y_true y_pred =
         classification_loss losses self y_true y_pred"
proof -
  have "\<exists>n. N_loss y_true y_pred = Inr (Finite n)"
    using N_loss_eq [OF assms(3-7)] by blast
  moreover have "\<exists>i. inter_loss y_pred = Inr (Finite i)"
    using assms(5-7) by (simp add: inter_loss_eq [OF assms(4)])
  ultimately obtain n i where "N_loss y_true y_pred = Inr (Finite n)"
    and "inter_loss y_pred = Inr (Finite i)"
    by blast
  then show ?thesis
    using assms(1,2)
    by (auto simp: classification_loss_regularized_def classification_loss_def bind_def
        add_scalar_zero split: sum.splits)
qed

theorem regularized_without_weights_witness:
  "mu example_losses = 0 \<and> beta example_losses = 0 \<and>
   same_shape example_cls_true example_cls_pred \<and> 1 < channels example_cls_pred \<and>
   0 < batch example_cls_pred \<and> 0 < Ly example_cls_pred \<and> 0 < Lx example_cls_pred \<and>
   classification_loss example_primitives example_losses example_cls_true example_cls_pred =
     Inr (scalar (Finite 2)) \<and>
   classification_loss_regularized example_primitives example_losses example_cls_true
     example_cls_pred = Inr (scalar (Finite 2))"
proof -
  have h: "mu example_losses = 0" "beta example_losses = 0"
    "same_shape example_cls_true example_cls_pred" "1 < channels example_cls_pred"
    "0 < batch example_cls_pred" "0 < Ly example_cls_pred" "0 < Lx example_cls_pred"
    by (simp_all add: example_losses_def same_shape_def example_cls_true_def example_cls_pred_def)
  have "classification_loss example_primitives example_losses example_cls_true example_cls_pred
        = Inr (scalar (Finite 2))"
    by (simp add: classification_loss_def example_primitives_def example_losses_def bind_def
        K_mean_def)
  with h regularized_without_weights [OF h, of example_primitives] show ?thesis by simp
qed

end
